theory Spec2Isabelle
  imports Main
begin

section \<open>Data model of the hospital queue application\<close>

text \<open>
  The two tables of \<^verbatim>\<open>app.py\<close>. Python integers are unbounded (\<open>int\<close>), a text is
  the list of its characters, a \<open>char\<close> being one code point below 256, and a table is
  the list of its rows in insertion order. The \<^verbatim>\<open>name\<close> and \<^verbatim>\<open>id\<close> columns carry a prefix, since both
  tables have them. The arrival time is a number handed to the handler, where the
  source reads the clock.
\<close>

record Department =
  d_id :: int
  d_name :: string
  average_service_time :: int
  description :: string

record Patient =
  p_id :: int
  p_name :: string
  department :: string
  queue_number :: int
  timestamp :: nat
  status :: string

record db =
  departments :: "Department list"
  patients :: "Patient list"

text \<open>The value of \<^verbatim>\<open>get_crowd_level\<close>: a dictionary with the two keys level and color.\<close>

record crowd =
  level :: string
  color :: string

text \<open>JSON bodies as \<^verbatim>\<open>jsonify\<close> receives them, and a response: body and HTTP status.\<close>

datatype json =
  JNull
  | JBool bool
  | JInt int
  | JStr string
  | JObj "(string \<times> json) list"

type_synonym response = "json \<times> int"

datatype py_error = TypeError

section \<open>Queries\<close>

text \<open>\<^verbatim>\<open>.first()\<close>: the first row of a result, or \<^verbatim>\<open>None\<close>.\<close>

definition query_first :: "'a list \<Rightarrow> 'a option" where
  "query_first rows = (case rows of [] \<Rightarrow> None | r # _ \<Rightarrow> Some r)"

text \<open>\<^verbatim>\<open>Patient.query.get(patient_id)\<close>: the row with that primary key, or \<^verbatim>\<open>None\<close>.\<close>

definition query_get :: "Patient list \<Rightarrow> int \<Rightarrow> Patient option" where
  "query_get ps patient_id = find (\<lambda>p. p_id p = patient_id) ps"

text \<open>\<^verbatim>\<open>Department.query.filter_by(name=...).first()\<close>.\<close>

definition department_by_name :: "Department list \<Rightarrow> string \<Rightarrow> Department option" where
  "department_by_name ds n = query_first (filter (\<lambda>d. d_name d = n) ds)"

text \<open>\<^verbatim>\<open>.order_by(Patient.queue_number.desc())\<close>.\<close>

definition order_by_queue_number_desc :: "Patient list \<Rightarrow> Patient list" where
  "order_by_queue_number_desc ps = rev (sort_key queue_number ps)"

text \<open>
  The primary key of a new row: SQLite gives 1 in an empty table and the largest key
  plus one otherwise.
\<close>

definition next_rowid :: "int list \<Rightarrow> int" where
  "next_rowid ids = (case ids of [] \<Rightarrow> 1 | i # rest \<Rightarrow> fold max rest i + 1)"

section \<open>Seeding the department catalog\<close>

definition default_departments :: "(string \<times> int \<times> string) list" where
  "default_departments =
     [(''Doctor Consultation'', 15, ''General physician consultation''),
      (''Pharmacy / Medicine Pickup'', 5, ''Collect prescribed medicines''),
      (''Blood Test / Laboratory'', 10, ''Blood tests and lab work''),
      (''Radiology / Scanning (X-ray, MRI, CT)'', 20, ''Medical imaging services''),
      (''Medical Report Collection'', 3, ''Collect test reports and documents'')]"

definition add_department :: "string \<times> int \<times> string \<Rightarrow> Department list \<Rightarrow> Department list" where
  "add_department dept ds =
     (case dept of (n, t, descr) \<Rightarrow>
        ds @ [\<lparr>d_id = next_rowid (map d_id ds), d_name = n,
               average_service_time = t, description = descr\<rparr>])"

definition init_db :: "db \<Rightarrow> db" where
  "init_db st =
     (if length (departments st) = 0
      then st\<lparr>departments := fold add_department default_departments (departments st)\<rparr>
      else st)"

section \<open>Queue management functions\<close>

definition get_next_queue_number :: "Patient list \<Rightarrow> string \<Rightarrow> int" where
  "get_next_queue_number ps department_name =
     (case query_first (order_by_queue_number_desc
             (filter (\<lambda>p. department p = department_name \<and> status p = ''waiting'') ps)) of
        Some last_patient \<Rightarrow> queue_number last_patient + 1
      | None \<Rightarrow> 1)"

definition get_queue_position :: "Patient list \<Rightarrow> int \<Rightarrow> int option" where
  "get_queue_position ps patient_id =
     (case query_get ps patient_id of
        None \<Rightarrow> None
      | Some patient \<Rightarrow>
          if status patient \<noteq> ''waiting'' then None
          else Some (int (length (filter (\<lambda>q. department q = department patient \<and>
                                              status q = ''waiting'' \<and>
                                              queue_number q < queue_number patient) ps)) + 1))"

text \<open>
  The position is whatever the caller passes: \<^verbatim>\<open>register\<close> passes the value of
  \<^verbatim>\<open>get_queue_position\<close>, which may be \<^verbatim>\<open>None\<close>, and \<^verbatim>\<open>None - 1\<close> raises.
\<close>

definition calculate_waiting_time :: "Department list \<Rightarrow> string \<Rightarrow> int option \<Rightarrow> py_error + int" where
  "calculate_waiting_time ds department_name position =
     (case department_by_name ds department_name of
        None \<Rightarrow> Inr 0
      | Some dept \<Rightarrow>
          (case position of
             None \<Rightarrow> Inl TypeError
           | Some pos \<Rightarrow> Inr ((pos - 1) * average_service_time dept)))"

definition get_crowd_level :: "int \<Rightarrow> crowd" where
  "get_crowd_level count =
     (if count \<le> 10 then \<lparr>level = ''Low'', color = ''success''\<rparr>
      else if count \<le> 25 then \<lparr>level = ''Moderate'', color = ''warning''\<rparr>
      else \<lparr>level = ''High'', color = ''danger''\<rparr>)"

definition get_hospital_crowd_level :: "int \<Rightarrow> crowd" where
  "get_hospital_crowd_level total_count =
     (if total_count \<le> 40 then \<lparr>level = ''Low'', color = ''success''\<rparr>
      else if total_count \<le> 80 then \<lparr>level = ''Moderate'', color = ''warning''\<rparr>
      else \<lparr>level = ''High'', color = ''danger''\<rparr>)"

section \<open>Request handlers\<close>

text \<open>
  Python's \<^verbatim>\<open>str.strip()\<close> removes the characters \<^verbatim>\<open>str.isspace\<close> accepts. Below 256
  these are the code points 9 to 13, 28 to 32, 133 (next line) and 160 (no-break space).
\<close>

definition isspace :: "char \<Rightarrow> bool" where
  "isspace c \<longleftrightarrow> (of_char c :: nat) \<in> {9, 10, 11, 12, 13, 28, 29, 30, 31, 32, 133, 160}"

definition strip :: "string \<Rightarrow> string" where
  "strip s = rev (dropWhile isspace (rev (dropWhile isspace s)))"

text \<open>A text with no whitespace at either end (and at least one character).\<close>

definition trimmed :: "string \<Rightarrow> bool" where
  "trimmed s \<longleftrightarrow> s \<noteq> [] \<and> \<not> isspace (hd s) \<and> \<not> isspace (last s)"

text \<open>\<^verbatim>\<open>request.form.get(key, '')\<close>.\<close>

definition form_get :: "(string \<rightharpoonup> string) \<Rightarrow> string \<Rightarrow> string" where
  "form_get form k = (case form k of None \<Rightarrow> [] | Some v \<Rightarrow> v)"

definition crowd_json :: "crowd \<Rightarrow> json" where
  "crowd_json c = JObj [(''level'', JStr (level c)), (''color'', JStr (color c))]"

text \<open>Reading one entry of a JSON object.\<close>

definition json_field :: "json \<Rightarrow> string \<Rightarrow> json option" where
  "json_field j k = (case j of JObj entries \<Rightarrow> map_of entries k | _ \<Rightarrow> None)"

definition error_response :: "string \<Rightarrow> int \<Rightarrow> response" where
  "error_response msg code = (JObj [(''error'', JStr msg)], code)"

definition count_status :: "Patient list \<Rightarrow> string \<Rightarrow> int" where
  "count_status ps s = int (length (filter (\<lambda>p. status p = s) ps))"

definition count_department_waiting :: "Patient list \<Rightarrow> string \<Rightarrow> int" where
  "count_department_waiting ps d =
     int (length (filter (\<lambda>p. department p = d \<and> status p = ''waiting'') ps))"

text \<open>
  The POST branch of \<^verbatim>\<open>register\<close>. The row is committed before the position and the
  waiting time are computed, so an exception there leaves the row in the table and
  answers 500. The handler also puts the new id into the client's session cookie, which
  is no part of the database and is left out.
\<close>

definition register :: "nat \<Rightarrow> (string \<rightharpoonup> string) \<Rightarrow> db \<Rightarrow> db \<times> response" where
  "register now form st =
     (let name = strip (form_get form ''name'');
          dep = strip (form_get form ''department'')
      in if name = [] \<or> dep = []
         then (st, error_response ''Name and department are required'' 400)
         else
           (case department_by_name (departments st) dep of
              None \<Rightarrow> (st, error_response ''Invalid department'' 400)
            | Some dept \<Rightarrow>
                (let qn = get_next_queue_number (patients st) dep;
                     patient = \<lparr>p_id = next_rowid (map p_id (patients st)), p_name = name,
                                department = dep, queue_number = qn,
                                timestamp = now, status = ''waiting''\<rparr>;
                     st' = st\<lparr>patients := patients st @ [patient]\<rparr>;
                     position = get_queue_position (patients st') (p_id patient)
                 in case calculate_waiting_time (departments st') dep position of
                      Inl err \<Rightarrow> (st', error_response ''Internal Server Error'' 500)
                    | Inr waiting_time \<Rightarrow>
                        (st', (JObj [(''success'', JBool True),
                                     (''patient_id'', JInt (p_id patient)),
                                     (''queue_number'', JInt qn),
                                     (''position'', (case position of None \<Rightarrow> JNull | Some pos \<Rightarrow> JInt pos)),
                                     (''waiting_time'', JInt waiting_time),
                                     (''crowd_level'',
                                        crowd_json (get_crowd_level
                                          (count_department_waiting (patients st') dep)))],
                               200)))))"

definition hospital_overview :: "db \<Rightarrow> response" where
  "hospital_overview st =
     (let total_waiting = count_status (patients st) ''waiting'';
          total_served = count_status (patients st) ''served'';
          hospital_crowd = get_hospital_crowd_level total_waiting
      in (JObj [(''total_waiting'', JInt total_waiting),
                (''total_served'', JInt total_served),
                (''total_patients'', JInt (total_waiting + total_served)),
                (''crowd_level'', JStr (level hospital_crowd)),
                (''crowd_color'', JStr (color hospital_crowd))],
          200))"

text \<open>
  Assigning \<^verbatim>\<open>patient.status\<close> and committing: the row with that primary key gets the
  new status.
\<close>

definition set_status :: "int \<Rightarrow> string \<Rightarrow> Patient list \<Rightarrow> Patient list" where
  "set_status patient_id s ps = map (\<lambda>p. if p_id p = patient_id then p\<lparr>status := s\<rparr> else p) ps"

text \<open>
  The JSON payload of the two POST endpoints is its \<^verbatim>\<open>patient_id\<close> entry: \<open>None\<close> when
  the key is absent. \<^verbatim>\<open>not patient_id\<close> holds for \<^verbatim>\<open>None\<close> and for 0.
\<close>

definition leave_queue :: "int option \<Rightarrow> db \<Rightarrow> db \<times> response" where
  "leave_queue patient_id st =
     (case patient_id of
        None \<Rightarrow> (st, error_response ''Patient ID required'' 400)
      | Some i \<Rightarrow>
          if i = 0 then (st, error_response ''Patient ID required'' 400)
          else
            (case query_get (patients st) i of
               None \<Rightarrow> (st, error_response ''Patient not found'' 404)
             | Some patient \<Rightarrow>
                 if status patient \<noteq> ''waiting''
                 then (st, error_response ''Patient is not in queue'' 400)
                 else (st\<lparr>patients := set_status i ''cancelled'' (patients st)\<rparr>,
                       (JObj [(''success'', JBool True),
                              (''message'', JStr (p_name patient @ '' has left the queue for '' @
                                                  department patient))],
                        200))))"

definition mark_served :: "int option \<Rightarrow> db \<Rightarrow> db \<times> response" where
  "mark_served patient_id st =
     (case patient_id of
        None \<Rightarrow> (st, error_response ''Patient ID required'' 400)
      | Some i \<Rightarrow>
          if i = 0 then (st, error_response ''Patient ID required'' 400)
          else
            (case query_get (patients st) i of
               None \<Rightarrow> (st, error_response ''Patient not found'' 404)
             | Some patient \<Rightarrow>
                 (st\<lparr>patients := set_status i ''served'' (patients st)\<rparr>,
                  (JObj [(''success'', JBool True),
                         (''message'', JStr (''Patient '' @ p_name patient @ '' marked as served''))],
                   200))))"

section \<open>Histories of requests\<close>

datatype request =
  Register nat "string \<rightharpoonup> string"
  | LeaveQueue "int option"
  | MarkServed "int option"

fun handle :: "request \<Rightarrow> db \<Rightarrow> db \<times> response" where
  "handle (Register now form) st = register now form st"
| "handle (LeaveQueue patient_id) st = leave_queue patient_id st"
| "handle (MarkServed patient_id) st = mark_served patient_id st"

fun run :: "request list \<Rightarrow> db \<Rightarrow> db" where
  "run [] st = st"
| "run (r # rs) st = run rs (fst (handle r st))"

text \<open>The registrations of a history that succeed for one department.\<close>

fun registered :: "string \<Rightarrow> request list \<Rightarrow> db \<Rightarrow> nat" where
  "registered d [] st = 0"
| "registered d (r # rs) st =
     (case r of
        Register now form \<Rightarrow>
          (if snd (snd (handle r st)) = 200 \<and> strip (form_get form ''department'') = d
           then 1 else 0)
      | _ \<Rightarrow> 0) + registered d rs (fst (handle r st))"

section \<open>Facts about the queries\<close>

lemma query_first_Nil [simp]: "query_first [] = None"
  and query_first_Cons [simp]: "query_first (x # xs) = Some x"
  by (simp_all add: query_first_def)

lemma department_by_name_member:
  "distinct (map d_name ds) \<Longrightarrow> d \<in> set ds \<Longrightarrow> department_by_name ds (d_name d) = Some d"
proof (induction ds)
  case Nil
  then show ?case by simp
next
  case (Cons a ds)
  show ?case
  proof (cases "a = d")
    case True
    then show ?thesis by (simp add: department_by_name_def)
  next
    case False
    with Cons.prems have "d \<in> set ds" and "d_name a \<noteq> d_name d" by auto
    with Cons show ?thesis by (simp add: department_by_name_def)
  qed
qed

lemma department_by_name_unknown:
  "department_by_name ds n = None \<longleftrightarrow> (\<forall>d\<in>set ds. d_name d \<noteq> n)"
  by (induction ds) (auto simp: department_by_name_def)

lemma query_get_member:
  "distinct (map p_id ps) \<Longrightarrow> p \<in> set ps \<Longrightarrow> query_get ps (p_id p) = Some p"
proof (induction ps)
  case Nil
  then show ?case by simp
next
  case (Cons a ps)
  show ?case
  proof (cases "a = p")
    case True
    then show ?thesis by (simp add: query_get_def)
  next
    case False
    with Cons.prems have "p \<in> set ps" and "p_id a \<noteq> p_id p" by auto
    with Cons show ?thesis by (simp add: query_get_def)
  qed
qed

lemma query_get_unknown:
  "query_get ps i = None \<longleftrightarrow> (\<forall>p\<in>set ps. p_id p \<noteq> i)"
  by (auto simp: query_get_def find_None_iff)

section \<open>The seed routine\<close>

lemma seeded_departments:
  "fold add_department default_departments [] =
     [\<lparr>d_id = 1, d_name = ''Doctor Consultation'', average_service_time = 15,
       description = ''General physician consultation''\<rparr>,
      \<lparr>d_id = 2, d_name = ''Pharmacy / Medicine Pickup'', average_service_time = 5,
       description = ''Collect prescribed medicines''\<rparr>,
      \<lparr>d_id = 3, d_name = ''Blood Test / Laboratory'', average_service_time = 10,
       description = ''Blood tests and lab work''\<rparr>,
      \<lparr>d_id = 4, d_name = ''Radiology / Scanning (X-ray, MRI, CT)'', average_service_time = 20,
       description = ''Medical imaging services''\<rparr>,
      \<lparr>d_id = 5, d_name = ''Medical Report Collection'', average_service_time = 3,
       description = ''Collect test reports and documents''\<rparr>]"
  by (simp add: default_departments_def add_department_def next_rowid_def)

lemma init_db_empty:
  "departments st = [] \<Longrightarrow>
   init_db st = st\<lparr>departments := fold add_department default_departments []\<rparr>"
  by (simp add: init_db_def)

lemma init_db_nonempty: "departments st \<noteq> [] \<Longrightarrow> init_db st = st"
  by (simp add: init_db_def)

text \<open>
  Claim C7. The seed routine leaves a non-empty catalog untouched and is idempotent;
  run twice from an empty catalog it yields the five default departments, with their
  service times, and no name twice.
\<close>

theorem init_db_idempotent:
  "(departments st \<noteq> [] \<longrightarrow> init_db st = st) \<and>
   init_db (init_db st) = init_db st \<and>
   (departments st = [] \<longrightarrow>
      map (\<lambda>d. (d_name d, average_service_time d)) (departments (init_db (init_db st))) =
        [(''Doctor Consultation'', 15), (''Pharmacy / Medicine Pickup'', 5),
         (''Blood Test / Laboratory'', 10), (''Radiology / Scanning (X-ray, MRI, CT)'', 20),
         (''Medical Report Collection'', 3)] \<and>
      distinct (map d_name (departments (init_db (init_db st)))))"
proof (intro conjI impI)
  show "init_db st = st" if "departments st \<noteq> []"
    using that by (rule init_db_nonempty)
  show idem: "init_db (init_db st) = init_db st"
  proof (cases "departments st = []")
    case True
    then have "departments (init_db st) \<noteq> []"
      by (simp add: init_db_empty seeded_departments)
    then show ?thesis by (rule init_db_nonempty)
  next
    case False
    then show ?thesis by (simp add: init_db_nonempty)
  qed
  assume e: "departments st = []"
  have d: "departments (init_db (init_db st)) = fold add_department default_departments []"
    using e by (simp only: idem) (simp add: init_db_empty)
  show "map (\<lambda>d. (d_name d, average_service_time d)) (departments (init_db (init_db st))) =
        [(''Doctor Consultation'', 15), (''Pharmacy / Medicine Pickup'', 5),
         (''Blood Test / Laboratory'', 10), (''Radiology / Scanning (X-ray, MRI, CT)'', 20),
         (''Medical Report Collection'', 3)]"
    by (simp add: d seeded_departments)
  show "distinct (map d_name (departments (init_db (init_db st))))"
    by (simp add: d seeded_departments)
qed

theorem init_db_idempotent_witness:
  "length (departments (init_db (init_db \<lparr>departments = [], patients = []\<rparr>))) = 5 \<and>
   init_db (init_db (init_db \<lparr>departments = [], patients = []\<rparr>)) =
     init_db \<lparr>departments = [], patients = []\<rparr>"
proof -
  have "map (\<lambda>d. (d_name d, average_service_time d))
          (departments (init_db (init_db \<lparr>departments = [], patients = []\<rparr>))) =
        [(''Doctor Consultation'', 15), (''Pharmacy / Medicine Pickup'', 5),
         (''Blood Test / Laboratory'', 10), (''Radiology / Scanning (X-ray, MRI, CT)'', 20),
         (''Medical Report Collection'', 3)]"
    using init_db_idempotent [of "\<lparr>departments = [], patients = []\<rparr>",
        THEN conjunct2, THEN conjunct2]
    by simp
  from arg_cong [OF this, of length]
  have five: "length (departments (init_db (init_db \<lparr>departments = [], patients = []\<rparr>))) = 5"
    by simp
  then have "departments (init_db (init_db \<lparr>departments = [], patients = []\<rparr>)) \<noteq> []"
    by auto
  then have "init_db (init_db (init_db \<lparr>departments = [], patients = []\<rparr>)) =
      init_db (init_db \<lparr>departments = [], patients = []\<rparr>)"
    using init_db_idempotent [of "init_db (init_db \<lparr>departments = [], patients = []\<rparr>)"]
    by blast
  moreover have "init_db (init_db \<lparr>departments = [], patients = []\<rparr>) =
      init_db \<lparr>departments = [], patients = []\<rparr>"
    using init_db_idempotent [of "\<lparr>departments = [], patients = []\<rparr>"] by blast
  ultimately show ?thesis using five by simp
qed

section \<open>Estimated waiting time\<close>

text \<open>
  Claim C5. For a department \<open>d\<close> of the catalog and a position \<open>pos\<close>, the estimated
  wait is \<open>(pos - 1) * average_service_time d\<close>; position 1 gives 0 whatever the
  department name is; a name that no department carries gives 0 for every position.
\<close>

theorem waiting_time_formula:
  "(distinct (map d_name ds) \<and> d \<in> set ds \<longrightarrow>
      calculate_waiting_time ds (d_name d) (Some pos) = Inr ((pos - 1) * average_service_time d)) \<and>
   calculate_waiting_time ds n (Some 1) = Inr 0 \<and>
   ((\<forall>d\<in>set ds. d_name d \<noteq> n) \<longrightarrow> calculate_waiting_time ds n position = Inr 0)"
proof (intro conjI impI)
  assume "distinct (map d_name ds) \<and> d \<in> set ds"
  then have "department_by_name ds (d_name d) = Some d"
    by (simp add: department_by_name_member)
  then show "calculate_waiting_time ds (d_name d) (Some pos) = Inr ((pos - 1) * average_service_time d)"
    by (simp add: calculate_waiting_time_def)
next
  show "calculate_waiting_time ds n (Some 1) = Inr 0"
    by (simp add: calculate_waiting_time_def split: option.splits)
next
  assume "\<forall>d\<in>set ds. d_name d \<noteq> n"
  then have "department_by_name ds n = None"
    by (simp add: department_by_name_unknown)
  then show "calculate_waiting_time ds n position = Inr 0"
    by (simp add: calculate_waiting_time_def)
qed

theorem waiting_time_formula_witness:
  "calculate_waiting_time (departments (init_db \<lparr>departments = [], patients = []\<rparr>))
     ''Pharmacy / Medicine Pickup'' (Some 2) = Inr 5 \<and>
   calculate_waiting_time (departments (init_db \<lparr>departments = [], patients = []\<rparr>))
     ''Cardiology'' (Some 7) = Inr 0"
  using waiting_time_formula [of "departments (init_db \<lparr>departments = [], patients = []\<rparr>)"
      "\<lparr>d_id = 2, d_name = ''Pharmacy / Medicine Pickup'', average_service_time = 5,
        description = ''Collect prescribed medicines''\<rparr>" 2 "''Cardiology''" "Some 7"]
  by (simp add: init_db_empty seeded_departments)

section \<open>Crowd levels\<close>

text \<open>
  Claim C6. The department crowd level is Low up to 10, Moderate from 11 to 25 and High
  from 26; the hospital-wide level is Low up to 40, Moderate from 41 to 80 and High
  from 81; the tiers carry the colors success, warning and danger.
\<close>

theorem crowd_level_tiers:
  "(count \<le> 10 \<longrightarrow> get_crowd_level count = \<lparr>level = ''Low'', color = ''success''\<rparr>) \<and>
   (11 \<le> count \<and> count \<le> 25 \<longrightarrow>
      get_crowd_level count = \<lparr>level = ''Moderate'', color = ''warning''\<rparr>) \<and>
   (26 \<le> count \<longrightarrow> get_crowd_level count = \<lparr>level = ''High'', color = ''danger''\<rparr>) \<and>
   (tot \<le> 40 \<longrightarrow> get_hospital_crowd_level tot = \<lparr>level = ''Low'', color = ''success''\<rparr>) \<and>
   (41 \<le> tot \<and> tot \<le> 80 \<longrightarrow>
      get_hospital_crowd_level tot = \<lparr>level = ''Moderate'', color = ''warning''\<rparr>) \<and>
   (81 \<le> tot \<longrightarrow> get_hospital_crowd_level tot = \<lparr>level = ''High'', color = ''danger''\<rparr>)"
  by (simp add: get_crowd_level_def get_hospital_crowd_level_def)

theorem crowd_level_tiers_witness:
  "get_crowd_level 10 = \<lparr>level = ''Low'', color = ''success''\<rparr> \<and>
   get_crowd_level 11 = \<lparr>level = ''Moderate'', color = ''warning''\<rparr> \<and>
   get_crowd_level 25 = \<lparr>level = ''Moderate'', color = ''warning''\<rparr> \<and>
   get_crowd_level 26 = \<lparr>level = ''High'', color = ''danger''\<rparr> \<and>
   get_hospital_crowd_level 40 = \<lparr>level = ''Low'', color = ''success''\<rparr> \<and>
   get_hospital_crowd_level 41 = \<lparr>level = ''Moderate'', color = ''warning''\<rparr> \<and>
   get_hospital_crowd_level 80 = \<lparr>level = ''Moderate'', color = ''warning''\<rparr> \<and>
   get_hospital_crowd_level 81 = \<lparr>level = ''High'', color = ''danger''\<rparr>"
  using crowd_level_tiers [of 10 40] crowd_level_tiers [of 11 41]
    crowd_level_tiers [of 25 80] crowd_level_tiers [of 26 81]
  by simp

section \<open>The hospital overview\<close>

lemma count_status_filter_cancelled:
  "s \<noteq> ''cancelled'' \<Longrightarrow>
   count_status (filter (\<lambda>p. status p \<noteq> ''cancelled'') ps) s = count_status ps s"
  by (induction ps) (auto simp: count_status_def)

text \<open>
  Claim C10. The overview reports the number of waiting records, the number of served
  records, and their sum as total_patients; dropping every cancelled record from the
  table changes nothing in the response, so cancelled records enter no count.
\<close>

theorem hospital_overview_totals:
  "json_field (fst (hospital_overview st)) ''total_waiting'' =
     Some (JInt (count_status (patients st) ''waiting'')) \<and>
   json_field (fst (hospital_overview st)) ''total_served'' =
     Some (JInt (count_status (patients st) ''served'')) \<and>
   json_field (fst (hospital_overview st)) ''total_patients'' =
     Some (JInt (count_status (patients st) ''waiting'' + count_status (patients st) ''served'')) \<and>
   hospital_overview (st\<lparr>patients := filter (\<lambda>p. status p \<noteq> ''cancelled'') (patients st)\<rparr>) =
     hospital_overview st"
  by (simp add: hospital_overview_def json_field_def count_status_filter_cancelled Let_def)

section \<open>Marking a record as served\<close>

lemmas handler_defs =
  register_def leave_queue_def mark_served_def form_get_def strip_def isspace_def
  department_by_name_def get_next_queue_number_def order_by_queue_number_desc_def
  next_rowid_def get_queue_position_def query_get_def calculate_waiting_time_def
  set_status_def get_crowd_level_def crowd_json_def count_department_waiting_def
  error_response_def Let_def

lemma alice_cancelled:
  "run [Register 7 [''name'' \<mapsto> ''Alice'', ''department'' \<mapsto> ''Pharmacy / Medicine Pickup''],
        LeaveQueue (Some 1)]
       (init_db \<lparr>departments = [], patients = []\<rparr>) =
   \<lparr>departments = fold add_department default_departments [],
    patients = [\<lparr>p_id = 1, p_name = ''Alice'', department = ''Pharmacy / Medicine Pickup'',
                 queue_number = 1, timestamp = 7, status = ''cancelled''\<rparr>]\<rparr>"
  by (simp add: init_db_empty seeded_departments handler_defs)

text \<open>
  Claim C1. After Alice registers and leaves the queue her record is cancelled; marking
  it as served then answers 200 with a success message and the record becomes served.
  The handler has no check of the current status, where \<^verbatim>\<open>leave_queue\<close> has one.
\<close>

theorem mark_served_ignores_status:
  "handle (MarkServed (Some 1))
     (run [Register 7 [''name'' \<mapsto> ''Alice'', ''department'' \<mapsto> ''Pharmacy / Medicine Pickup''],
           LeaveQueue (Some 1)]
          (init_db \<lparr>departments = [], patients = []\<rparr>)) =
   (\<lparr>departments = fold add_department default_departments [],
     patients = [\<lparr>p_id = 1, p_name = ''Alice'', department = ''Pharmacy / Medicine Pickup'',
                  queue_number = 1, timestamp = 7, status = ''served''\<rparr>]\<rparr>,
    JObj [(''success'', JBool True), (''message'', JStr ''Patient Alice marked as served'')],
    200)"
  by (simp only: alice_cancelled) (simp add: handler_defs)

section \<open>Position in the queue\<close>

lemma distinct_rows: "distinct (map p_id ps) \<Longrightarrow> distinct ps"
  by (rule distinct_map [THEN iffD1, THEN conjunct1])

text \<open>
  Claim C4. The position is \<^verbatim>\<open>None\<close> when no record has the id, and when the record
  with the id is not waiting; for a waiting record it is one more than the number of
  waiting records of the same department with a strictly smaller queue number.
  Primary keys are unique.
\<close>

theorem queue_position_spec:
  "((\<forall>p\<in>set ps. p_id p \<noteq> i) \<longrightarrow> get_queue_position ps i = None) \<and>
   (distinct (map p_id ps) \<and> p \<in> set ps \<and> status p \<noteq> ''waiting'' \<longrightarrow>
      get_queue_position ps (p_id p) = None) \<and>
   (distinct (map p_id ps) \<and> p \<in> set ps \<and> status p = ''waiting'' \<longrightarrow>
      get_queue_position ps (p_id p) =
        Some (int (card {q \<in> set ps. department q = department p \<and> status q = ''waiting'' \<and>
                                      queue_number q < queue_number p}) + 1))"
proof (intro conjI impI)
  assume "\<forall>p\<in>set ps. p_id p \<noteq> i"
  then have "query_get ps i = None" by (simp add: query_get_unknown)
  then show "get_queue_position ps i = None" by (simp add: get_queue_position_def)
next
  assume "distinct (map p_id ps) \<and> p \<in> set ps \<and> status p \<noteq> ''waiting''"
  then have "query_get ps (p_id p) = Some p" and "status p \<noteq> ''waiting''"
    by (simp_all add: query_get_member)
  then show "get_queue_position ps (p_id p) = None" by (simp add: get_queue_position_def)
next
  assume a: "distinct (map p_id ps) \<and> p \<in> set ps \<and> status p = ''waiting''"
  then have g: "query_get ps (p_id p) = Some p" by (simp add: query_get_member)
  from a have "distinct ps" by (simp add: distinct_rows)
  then have "length (filter (\<lambda>q. department q = department p \<and> status q = ''waiting'' \<and>
                                  queue_number q < queue_number p) ps) =
             card {q \<in> set ps. department q = department p \<and> status q = ''waiting'' \<and>
                                queue_number q < queue_number p}"
    by (simp add: distinct_length_filter Collect_conj_eq Int_commute)
  with g a show "get_queue_position ps (p_id p) =
        Some (int (card {q \<in> set ps. department q = department p \<and> status q = ''waiting'' \<and>
                                      queue_number q < queue_number p}) + 1)"
    by (simp add: get_queue_position_def)
qed

theorem queue_position_spec_witness:
  "get_queue_position
     [\<lparr>p_id = 1, p_name = ''Alice'', department = ''Pharmacy / Medicine Pickup'',
       queue_number = 1, timestamp = 7, status = ''waiting''\<rparr>,
      \<lparr>p_id = 2, p_name = ''Bob'', department = ''Pharmacy / Medicine Pickup'',
       queue_number = 2, timestamp = 8, status = ''waiting''\<rparr>,
      \<lparr>p_id = 3, p_name = ''Carol'', department = ''Pharmacy / Medicine Pickup'',
       queue_number = 3, timestamp = 9, status = ''served''\<rparr>] 2 =
   Some (int (card {q \<in> set
     [\<lparr>p_id = 1, p_name = ''Alice'', department = ''Pharmacy / Medicine Pickup'',
       queue_number = 1, timestamp = 7, status = ''waiting''\<rparr>,
      \<lparr>p_id = 2, p_name = ''Bob'', department = ''Pharmacy / Medicine Pickup'',
       queue_number = 2, timestamp = 8, status = ''waiting''\<rparr>,
      \<lparr>p_id = 3, p_name = ''Carol'', department = ''Pharmacy / Medicine Pickup'',
       queue_number = 3, timestamp = 9, status = ''served''\<rparr>].
       department q = ''Pharmacy / Medicine Pickup'' \<and> status q = ''waiting'' \<and>
       queue_number q < 2}) + 1) \<and>
   get_queue_position
     [\<lparr>p_id = 1, p_name = ''Alice'', department = ''Pharmacy / Medicine Pickup'',
       queue_number = 1, timestamp = 7, status = ''waiting''\<rparr>,
      \<lparr>p_id = 2, p_name = ''Bob'', department = ''Pharmacy / Medicine Pickup'',
       queue_number = 2, timestamp = 8, status = ''waiting''\<rparr>,
      \<lparr>p_id = 3, p_name = ''Carol'', department = ''Pharmacy / Medicine Pickup'',
       queue_number = 3, timestamp = 9, status = ''served''\<rparr>] 3 = None \<and>
   get_queue_position
     [\<lparr>p_id = 1, p_name = ''Alice'', department = ''Pharmacy / Medicine Pickup'',
       queue_number = 1, timestamp = 7, status = ''waiting''\<rparr>,
      \<lparr>p_id = 2, p_name = ''Bob'', department = ''Pharmacy / Medicine Pickup'',
       queue_number = 2, timestamp = 8, status = ''waiting''\<rparr>,
      \<lparr>p_id = 3, p_name = ''Carol'', department = ''Pharmacy / Medicine Pickup'',
       queue_number = 3, timestamp = 9, status = ''served''\<rparr>] 4 = None \<and>
   get_queue_position
     [\<lparr>p_id = 1, p_name = ''Alice'', department = ''Pharmacy / Medicine Pickup'',
       queue_number = 1, timestamp = 7, status = ''waiting''\<rparr>,
      \<lparr>p_id = 2, p_name = ''Bob'', department = ''Pharmacy / Medicine Pickup'',
       queue_number = 2, timestamp = 8, status = ''waiting''\<rparr>,
      \<lparr>p_id = 3, p_name = ''Carol'', department = ''Pharmacy / Medicine Pickup'',
       queue_number = 3, timestamp = 9, status = ''served''\<rparr>] 2 = Some 2"
proof -
  let ?a = "\<lparr>p_id = 1, p_name = ''Alice'', department = ''Pharmacy / Medicine Pickup'',
       queue_number = 1, timestamp = 7, status = ''waiting''\<rparr>"
  let ?b = "\<lparr>p_id = 2, p_name = ''Bob'', department = ''Pharmacy / Medicine Pickup'',
       queue_number = 2, timestamp = 8, status = ''waiting''\<rparr>"
  let ?c = "\<lparr>p_id = 3, p_name = ''Carol'', department = ''Pharmacy / Medicine Pickup'',
       queue_number = 3, timestamp = 9, status = ''served''\<rparr>"
  have "get_queue_position [?a, ?b, ?c] 2 =
      Some (int (card {q \<in> set [?a, ?b, ?c].
        department q = ''Pharmacy / Medicine Pickup'' \<and> status q = ''waiting'' \<and>
        queue_number q < 2}) + 1)"
    using queue_position_spec [of "[?a, ?b, ?c]" 4 ?b] by simp
  moreover have "get_queue_position [?a, ?b, ?c] 3 = None"
    using queue_position_spec [of "[?a, ?b, ?c]" 4 ?c] by simp
  moreover have "get_queue_position [?a, ?b, ?c] 4 = None"
    using queue_position_spec [of "[?a, ?b, ?c]" 4 ?c] by simp
  moreover have "get_queue_position [?a, ?b, ?c] 2 = Some 2"
    by (simp add: get_queue_position_def query_get_def)
  ultimately show ?thesis by blast
qed

section \<open>Registration\<close>

lemma fold_max_ge:
  "i \<le> fold max rest (i::int) \<and> (\<forall>x\<in>set rest. x \<le> fold max rest i)"
proof (induction rest arbitrary: i)
  case Nil
  then show ?case by simp
next
  case (Cons a rest)
  define m where "m = max a i"
  have le: "i \<le> m" "a \<le> m" by (simp_all add: m_def)
  from Cons.IH [of m]
  have "m \<le> fold max rest m" and "\<forall>x\<in>set rest. x \<le> fold max rest m"
    by simp_all
  with le have "i \<le> fold max rest m \<and> a \<le> fold max rest m \<and> (\<forall>x\<in>set rest. x \<le> fold max rest m)"
    by auto
  then show ?case by (simp add: m_def)
qed

lemma next_rowid_fresh: "next_rowid ids \<notin> set ids"
proof (cases ids)
  case Nil
  then show ?thesis by simp
next
  case (Cons i rest)
  show ?thesis
  proof
    assume "next_rowid ids \<in> set ids"
    then have "fold max rest i + 1 \<le> fold max rest i"
      using fold_max_ge [of i rest] Cons by (auto simp: next_rowid_def)
    then show False by simp
  qed
qed

lemma query_get_new:
  "p_id p \<notin> set (map p_id ps) \<Longrightarrow> query_get (ps @ [p]) (p_id p) = Some p"
  by (induction ps) (auto simp: query_get_def)

lemma register_rejected:
  assumes "strip (form_get form ''name'') = [] \<or> strip (form_get form ''department'') = [] \<or>
           department_by_name (departments st) (strip (form_get form ''department'')) = None"
  shows "fst (register now form st) = st" and "snd (snd (register now form st)) = 400"
  using assms by (auto simp: register_def error_response_def Let_def)

lemma register_accepted:
  assumes "strip (form_get form ''name'') \<noteq> []"
    and "strip (form_get form ''department'') \<noteq> []"
    and "department_by_name (departments st) (strip (form_get form ''department'')) \<noteq> None"
  shows "fst (register now form st) =
           st\<lparr>patients := patients st @
                 [\<lparr>p_id = next_rowid (map p_id (patients st)),
                   p_name = strip (form_get form ''name''),
                   department = strip (form_get form ''department''),
                   queue_number = get_next_queue_number (patients st)
                                    (strip (form_get form ''department'')),
                   timestamp = now, status = ''waiting''\<rparr>]\<rparr>"
    and "snd (snd (register now form st)) = 200"
proof -
  let ?p = "\<lparr>p_id = next_rowid (map p_id (patients st)),
             p_name = strip (form_get form ''name''),
             department = strip (form_get form ''department''),
             queue_number = get_next_queue_number (patients st)
                              (strip (form_get form ''department'')),
             timestamp = now, status = ''waiting''\<rparr>"
  from assms(3) obtain dept where
    d: "department_by_name (departments st) (strip (form_get form ''department'')) = Some dept"
    by auto
  have "p_id ?p \<notin> set (map p_id (patients st))"
    using next_rowid_fresh [of "map p_id (patients st)"] by simp
  then have "query_get (patients st @ [?p]) (p_id ?p) = Some ?p"
    by (rule query_get_new)
  then have "get_queue_position (patients st @ [?p]) (next_rowid (map p_id (patients st))) \<noteq> None"
    by (simp add: get_queue_position_def)
  then obtain pos where
    pos: "get_queue_position (patients st @ [?p]) (next_rowid (map p_id (patients st))) = Some pos"
    by auto
  show "fst (register now form st) = st\<lparr>patients := patients st @ [?p]\<rparr>"
    using assms(1,2) d pos
    by (simp add: register_def Let_def calculate_waiting_time_def)
  show "snd (snd (register now form st)) = 200"
    using assms(1,2) d pos
    by (simp add: register_def Let_def calculate_waiting_time_def)
qed

lemma strip_Nil [simp]: "strip [] = []"
  by (simp add: strip_def)

lemma form_get_missing: "form k = None \<Longrightarrow> form_get form k = []"
  by (simp add: form_get_def)

text \<open>
  Claim C8. A registration whose name or department field is missing or empty after
  stripping, or whose stripped department is the name of no department, is answered
  with 400 and leaves the database as it was.
\<close>

theorem register_validation:
  "form ''name'' = None \<or> strip (form_get form ''name'') = [] \<or>
   form ''department'' = None \<or> strip (form_get form ''department'') = [] \<or>
   (\<forall>d\<in>set (departments st). d_name d \<noteq> strip (form_get form ''department'')) \<Longrightarrow>
   fst (register now form st) = st \<and> snd (snd (register now form st)) = 400"
proof -
  assume "form ''name'' = None \<or> strip (form_get form ''name'') = [] \<or>
   form ''department'' = None \<or> strip (form_get form ''department'') = [] \<or>
   (\<forall>d\<in>set (departments st). d_name d \<noteq> strip (form_get form ''department''))"
  then have "strip (form_get form ''name'') = [] \<or> strip (form_get form ''department'') = [] \<or>
           department_by_name (departments st) (strip (form_get form ''department'')) = None"
    by (auto simp: form_get_missing department_by_name_unknown)
  then show ?thesis
    by (simp add: register_rejected)
qed


theorem register_validation_witness:
  "fst (register 5 [''department'' \<mapsto> ''Pharmacy / Medicine Pickup'']
          (init_db \<lparr>departments = [], patients = []\<rparr>)) =
     init_db \<lparr>departments = [], patients = []\<rparr> \<and>
   snd (snd (register 5 [''department'' \<mapsto> ''Pharmacy / Medicine Pickup'']
          (init_db \<lparr>departments = [], patients = []\<rparr>))) = 400 \<and>
   fst (register 6 [''name'' \<mapsto> ''Dan'', ''department'' \<mapsto> ''Cardiology'']
          (init_db \<lparr>departments = [], patients = []\<rparr>)) =
     init_db \<lparr>departments = [], patients = []\<rparr> \<and>
   snd (snd (register 6 [''name'' \<mapsto> ''Dan'', ''department'' \<mapsto> ''Cardiology'']
          (init_db \<lparr>departments = [], patients = []\<rparr>))) = 400"
proof -
  have "[''department'' \<mapsto> ''Pharmacy / Medicine Pickup''] ''name'' = None"
    by simp
  then have a: "fst (register 5 [''department'' \<mapsto> ''Pharmacy / Medicine Pickup'']
          (init_db \<lparr>departments = [], patients = []\<rparr>)) =
     init_db \<lparr>departments = [], patients = []\<rparr> \<and>
   snd (snd (register 5 [''department'' \<mapsto> ''Pharmacy / Medicine Pickup'']
          (init_db \<lparr>departments = [], patients = []\<rparr>))) = 400"
    using register_validation [of "[''department'' \<mapsto> ''Pharmacy / Medicine Pickup'']"
        "init_db \<lparr>departments = [], patients = []\<rparr>" 5]
    by blast
  have "\<forall>d\<in>set (departments (init_db \<lparr>departments = [], patients = []\<rparr>)).
          d_name d \<noteq> strip (form_get [''name'' \<mapsto> ''Dan'', ''department'' \<mapsto> ''Cardiology''] ''department'')"
    by (simp add: init_db_empty seeded_departments form_get_def strip_def isspace_def)
  then have b: "fst (register 6 [''name'' \<mapsto> ''Dan'', ''department'' \<mapsto> ''Cardiology'']
          (init_db \<lparr>departments = [], patients = []\<rparr>)) =
     init_db \<lparr>departments = [], patients = []\<rparr> \<and>
   snd (snd (register 6 [''name'' \<mapsto> ''Dan'', ''department'' \<mapsto> ''Cardiology'']
          (init_db \<lparr>departments = [], patients = []\<rparr>))) = 400"
    using register_validation [of "[''name'' \<mapsto> ''Dan'', ''department'' \<mapsto> ''Cardiology'']"
        "init_db \<lparr>departments = [], patients = []\<rparr>" 6]
    by blast
  from a b show ?thesis by blast
qed

section \<open>Stripping the submitted fields\<close>

lemma strip_empty_iff: "strip s = [] \<longleftrightarrow> (\<forall>c\<in>set s. isspace c)"
proof
  assume "strip s = []"
  then have "dropWhile isspace (rev (dropWhile isspace s)) = []"
    by (simp add: strip_def)
  then have "\<forall>c\<in>set (dropWhile isspace s). isspace c"
    by (simp add: dropWhile_eq_Nil_conv)
  moreover have "dropWhile isspace s \<noteq> [] \<Longrightarrow> \<not> isspace (hd (dropWhile isspace s))"
    by (rule hd_dropWhile)
  ultimately have "dropWhile isspace s = []"
    by (cases "dropWhile isspace s") auto
  then show "\<forall>c\<in>set s. isspace c"
    by (simp add: dropWhile_eq_Nil_conv)
next
  assume "\<forall>c\<in>set s. isspace c"
  then show "strip s = []"
    by (auto simp: strip_def dest: set_dropWhileD)
qed

lemma last_dropWhile: "dropWhile P xs \<noteq> [] \<Longrightarrow> last (dropWhile P xs) = last xs"
  by (induction xs) (auto split: if_splits)

lemma strip_trimmed: "strip s \<noteq> [] \<Longrightarrow> trimmed (strip s)"
proof -
  assume n: "strip s \<noteq> []"
  let ?t = "dropWhile isspace s"
  let ?u = "dropWhile isspace (rev ?t)"
  from n have u: "?u \<noteq> []" by (simp add: strip_def)
  have t: "?t \<noteq> []"
  proof
    assume e: "?t = []"
    have "?u = []" unfolding e by simp
    with u show False by contradiction
  qed
  have "last (strip s) = hd ?u"
    using u by (simp add: strip_def last_rev)
  moreover have "\<not> isspace (hd ?u)"
    using u by (rule hd_dropWhile)
  moreover have "hd (strip s) = last ?u"
    using u by (simp add: strip_def hd_rev)
  moreover have "last ?u = last (rev ?t)"
    using u by (rule last_dropWhile)
  moreover have "last (rev ?t) = hd ?t"
    using t by (simp add: last_rev)
  moreover have "\<not> isspace (hd ?t)"
    using t by (rule hd_dropWhile)
  ultimately show ?thesis
    using n by (simp add: trimmed_def)
qed

lemma strip_decompose:
  "\<exists>l r. s = l @ strip s @ r \<and> (\<forall>c\<in>set l. isspace c) \<and> (\<forall>c\<in>set r. isspace c)"
proof -
  let ?t = "dropWhile isspace s"
  have "rev (takeWhile isspace (rev ?t) @ dropWhile isspace (rev ?t)) = rev (rev ?t)"
    by (simp only: takeWhile_dropWhile_id)
  then have "rev (dropWhile isspace (rev ?t)) @ rev (takeWhile isspace (rev ?t)) = ?t"
    by (simp only: rev_append rev_rev_ident)
  then have "?t = strip s @ rev (takeWhile isspace (rev ?t))"
    by (simp only: strip_def)
  moreover have "s = takeWhile isspace s @ ?t"
    by simp
  ultimately have "s = takeWhile isspace s @ strip s @ rev (takeWhile isspace (rev ?t))"
    by simp
  moreover have "\<forall>c\<in>set (takeWhile isspace s). isspace c"
    by (auto dest: set_takeWhileD)
  moreover have "\<forall>c\<in>set (rev (takeWhile isspace (rev ?t))). isspace c"
    by (auto dest: set_takeWhileD)
  ultimately show ?thesis by blast
qed

lemma set_status_names: "map p_name (set_status i s ps) = map p_name ps"
  by (simp add: set_status_def)

lemma leave_queue_patients:
  "patients (fst (leave_queue i st)) = patients st \<or>
   (\<exists>k. patients (fst (leave_queue i st)) = set_status k ''cancelled'' (patients st))"
  by (auto simp: leave_queue_def split: option.splits)

lemma mark_served_patients:
  "patients (fst (mark_served i st)) = patients st \<or>
   (\<exists>k. patients (fst (mark_served i st)) = set_status k ''served'' (patients st))"
  by (auto simp: mark_served_def split: option.splits)

lemma register_patients:
  "fst (register now form st) = st \<and> snd (snd (register now form st)) = 400 \<or>
   fst (register now form st) =
           st\<lparr>patients := patients st @
                 [\<lparr>p_id = next_rowid (map p_id (patients st)),
                   p_name = strip (form_get form ''name''),
                   department = strip (form_get form ''department''),
                   queue_number = get_next_queue_number (patients st)
                                    (strip (form_get form ''department'')),
                   timestamp = now, status = ''waiting''\<rparr>]\<rparr> \<and>
   snd (snd (register now form st)) = 200 \<and>
   strip (form_get form ''name'') \<noteq> [] \<and> strip (form_get form ''department'') \<noteq> [] \<and>
   department_by_name (departments st) (strip (form_get form ''department'')) \<noteq> None"
proof (cases "strip (form_get form ''name'') = [] \<or> strip (form_get form ''department'') = [] \<or>
           department_by_name (departments st) (strip (form_get form ''department'')) = None")
  case True
  then show ?thesis
    using register_rejected [of form st now] by blast
next
  case False
  then show ?thesis
    using register_accepted [of form st now] by blast
qed

lemma handle_names_trimmed:
  assumes "\<forall>p\<in>set (patients st). trimmed (p_name p)"
  shows "\<forall>p\<in>set (patients (fst (handle r st))). trimmed (p_name p)"
proof -
  from assms have base: "\<forall>n\<in>set (map p_name (patients st)). trimmed n"
    by simp
  have "\<forall>n\<in>set (map p_name (patients (fst (handle r st)))). trimmed n"
  proof (cases r)
    case (Register now form)
    show ?thesis
      using register_patients [of now form st] base strip_trimmed [of "form_get form ''name''"]
      by (auto simp: Register)
  next
    case (LeaveQueue i)
    show ?thesis
      using leave_queue_patients [of i st] base
      by (auto simp: LeaveQueue set_status_names simp del: set_map)
  next
    case (MarkServed i)
    show ?thesis
      using mark_served_patients [of i st] base
      by (auto simp: MarkServed set_status_names simp del: set_map)
  qed
  then show ?thesis by simp
qed

lemma run_names_trimmed:
  "\<forall>p\<in>set (patients st). trimmed (p_name p) \<Longrightarrow>
   \<forall>p\<in>set (patients (run rs st)). trimmed (p_name p)"
proof (induction rs arbitrary: st)
  case Nil
  then show ?case by simp
next
  case (Cons r rs)
  from Cons.prems have "\<forall>p\<in>set (patients (fst (handle r st))). trimmed (p_name p)"
    by (rule handle_names_trimmed)
  then show ?case
    using Cons.IH by simp
qed

text \<open>
  Claim C9. A registration whose name or department consists of whitespace only is
  answered with 400 and changes nothing; a registration that is not answered with 400
  stores the stripped name and the stripped department, both without whitespace at
  either end; no request introduces a stored name with surrounding whitespace; and
  stripping removes whitespace at the two ends of a text and nothing else.
\<close>

theorem register_strips_input:
  "((\<forall>c\<in>set (form_get form ''name''). isspace c) \<or>
    (\<forall>c\<in>set (form_get form ''department''). isspace c) \<longrightarrow>
      fst (register now form st) = st \<and> snd (snd (register now form st)) = 400) \<and>
   (snd (snd (register now form st)) \<noteq> 400 \<longrightarrow>
      (\<exists>p. patients (fst (register now form st)) = patients st @ [p] \<and>
           p_name p = strip (form_get form ''name'') \<and>
           department p = strip (form_get form ''department'') \<and>
           trimmed (p_name p) \<and> trimmed (department p))) \<and>
   ((\<forall>p\<in>set (patients st). trimmed (p_name p)) \<longrightarrow>
      (\<forall>p\<in>set (patients (run rs st)). trimmed (p_name p))) \<and>
   (\<exists>l r. s = l @ strip s @ r \<and> (\<forall>c\<in>set l. isspace c) \<and> (\<forall>c\<in>set r. isspace c))"
proof (intro conjI impI)
  assume "(\<forall>c\<in>set (form_get form ''name''). isspace c) \<or>
    (\<forall>c\<in>set (form_get form ''department''). isspace c)"
  then have e: "strip (form_get form ''name'') = [] \<or> strip (form_get form ''department'') = [] \<or>
      department_by_name (departments st) (strip (form_get form ''department'')) = None"
    by (auto simp: strip_empty_iff)
  from e show "fst (register now form st) = st"
    by (rule register_rejected(1))
  from e show "snd (snd (register now form st)) = 400"
    by (rule register_rejected(2))
next
  assume "snd (snd (register now form st)) \<noteq> 400"
  then show "\<exists>p. patients (fst (register now form st)) = patients st @ [p] \<and>
           p_name p = strip (form_get form ''name'') \<and>
           department p = strip (form_get form ''department'') \<and>
           trimmed (p_name p) \<and> trimmed (department p)"
    using register_patients [of now form st] strip_trimmed [of "form_get form ''name''"]
      strip_trimmed [of "form_get form ''department''"]
    by auto
next
  assume "\<forall>p\<in>set (patients st). trimmed (p_name p)"
  then show "\<forall>p\<in>set (patients (run rs st)). trimmed (p_name p)"
    by (rule run_names_trimmed)
next
  show "\<exists>l r. s = l @ strip s @ r \<and> (\<forall>c\<in>set l. isspace c) \<and> (\<forall>c\<in>set r. isspace c)"
    by (rule strip_decompose)
qed

lemma bob_registered:
  "run [Register 8 [''name'' \<mapsto> ''  Bob '', ''department'' \<mapsto> '' Pharmacy / Medicine Pickup'']]
       (init_db \<lparr>departments = [], patients = []\<rparr>) =
   \<lparr>departments = fold add_department default_departments [],
    patients = [\<lparr>p_id = 1, p_name = ''Bob'', department = ''Pharmacy / Medicine Pickup'',
                 queue_number = 1, timestamp = 8, status = ''waiting''\<rparr>]\<rparr>"
  by (simp add: init_db_empty seeded_departments handler_defs)

theorem register_strips_input_witness:
  "fst (register 3 [''name'' \<mapsto> [CHR 0xA0, CHR 0x09, CHR '' '', CHR 0x85],
                    ''department'' \<mapsto> ''Pharmacy / Medicine Pickup'']
          (init_db \<lparr>departments = [], patients = []\<rparr>)) =
     init_db \<lparr>departments = [], patients = []\<rparr> \<and>
   snd (snd (register 3 [''name'' \<mapsto> [CHR 0xA0, CHR 0x09, CHR '' '', CHR 0x85],
                         ''department'' \<mapsto> ''Pharmacy / Medicine Pickup'']
          (init_db \<lparr>departments = [], patients = []\<rparr>))) = 400 \<and>
   map p_name (patients
     (run [Register 8 [''name'' \<mapsto> ''  Bob '', ''department'' \<mapsto> '' Pharmacy / Medicine Pickup'']]
        (init_db \<lparr>departments = [], patients = []\<rparr>))) = [''Bob''] \<and>
   trimmed ''Bob''"
proof -
  let ?S = "init_db \<lparr>departments = [], patients = []\<rparr>"
  let ?f = "[''name'' \<mapsto> [CHR 0xA0, CHR 0x09, CHR '' '', CHR 0x85],
             ''department'' \<mapsto> ''Pharmacy / Medicine Pickup'']"
  let ?rs = "[Register 8 [''name'' \<mapsto> ''  Bob '', ''department'' \<mapsto> '' Pharmacy / Medicine Pickup'']]"
  note t = register_strips_input [of ?f 3 ?S ?rs]
  have "\<forall>c\<in>set (form_get ?f ''name''). isspace c"
    by (simp add: form_get_def isspace_def)
  with t have a: "fst (register 3 ?f ?S) = ?S \<and> snd (snd (register 3 ?f ?S)) = 400"
    by blast
  have "\<forall>p\<in>set (patients ?S). trimmed (p_name p)"
    by (simp add: init_db_empty)
  with t have "\<forall>p\<in>set (patients (run ?rs ?S)). trimmed (p_name p)"
    by blast
  then have b: "trimmed ''Bob''"
    by (simp only: bob_registered) simp
  have c: "map p_name (patients (run ?rs ?S)) = [''Bob'']"
    by (simp only: bob_registered) simp
  from a b c show ?thesis by blast
qed

section \<open>The next queue number\<close>

lemma sorted_last_greatest:
  "sorted (map f xs) \<Longrightarrow> x \<in> set xs \<Longrightarrow> (f x :: int) \<le> f (last xs)"
proof (induction xs)
  case Nil
  then show ?case by simp
next
  case (Cons a xs)
  show ?case
  proof (cases "xs = []")
    case True
    with Cons.prems show ?thesis by simp
  next
    case False
    then have l: "last (a # xs) = last xs" and m: "last xs \<in> set xs"
      by simp_all
    from Cons.prems(1) have s: "sorted (map f xs)" and le: "\<forall>y\<in>set xs. f a \<le> f y"
      by simp_all
    show ?thesis
    proof (cases "x = a")
      case True
      with le m l show ?thesis by simp
    next
      case False
      with Cons.prems(2) have "x \<in> set xs" by simp
      with Cons.IH s l show ?thesis by simp
    qed
  qed
qed

lemma query_first_rev: "xs \<noteq> [] \<Longrightarrow> query_first (rev xs) = Some (last xs)"
  by (cases xs rule: rev_cases) (simp_all add: query_first_def)

lemma next_queue_number_none:
  "filter (\<lambda>p. department p = d \<and> status p = ''waiting'') ps = [] \<Longrightarrow>
   get_next_queue_number ps d = 1"
  by (simp add: get_next_queue_number_def order_by_queue_number_desc_def)

lemma next_queue_number_some:
  assumes "filter (\<lambda>p. department p = d \<and> status p = ''waiting'') ps \<noteq> []"
  shows "\<exists>w\<in>set ps. department w = d \<and> status w = ''waiting'' \<and>
           get_next_queue_number ps d = queue_number w + 1 \<and>
           (\<forall>q\<in>set ps. department q = d \<and> status q = ''waiting'' \<longrightarrow>
                queue_number q \<le> queue_number w)"
proof -
  let ?W = "filter (\<lambda>p. department p = d \<and> status p = ''waiting'') ps"
  let ?S = "sort_key queue_number ?W"
  have ne: "?S \<noteq> []"
  proof
    assume "?S = []"
    then have "length ?S = 0" by (simp only: list.size)
    then have "length ?W = 0" by (simp only: length_sort)
    with assms show False by simp
  qed
  then have f: "query_first (rev ?S) = Some (last ?S)"
    by (rule query_first_rev)
  have mem: "last ?S \<in> set ?W"
    using ne last_in_set [of ?S] by simp
  have "\<forall>q\<in>set ?W. queue_number q \<le> queue_number (last ?S)"
  proof
    fix q assume "q \<in> set ?W"
    then have "q \<in> set ?S" by simp
    moreover have "sorted (map queue_number ?S)" by (rule sorted_sort_key)
    ultimately show "queue_number q \<le> queue_number (last ?S)"
      by (rule sorted_last_greatest [rotated])
  qed
  moreover have "get_next_queue_number ps d = queue_number (last ?S) + 1"
    using f by (simp add: get_next_queue_number_def order_by_queue_number_desc_def)
  ultimately show ?thesis
    using mem by auto
qed

lemma next_queue_number_above:
  "q \<in> set ps \<Longrightarrow> department q = d \<Longrightarrow> status q = ''waiting'' \<Longrightarrow>
   queue_number q < get_next_queue_number ps d"
proof -
  assume q: "q \<in> set ps" "department q = d" "status q = ''waiting''"
  then have "filter (\<lambda>p. department p = d \<and> status p = ''waiting'') ps \<noteq> []"
    by (auto simp: filter_empty_conv)
  from next_queue_number_some [OF this] q show ?thesis
    by fastforce
qed

lemma next_queue_number_Max:
  assumes "\<exists>p\<in>set ps. department p = d \<and> status p = ''waiting''"
  shows "get_next_queue_number ps d =
           Max {queue_number p | p. p \<in> set ps \<and> department p = d \<and> status p = ''waiting''} + 1"
proof -
  let ?Q = "{queue_number p | p. p \<in> set ps \<and> department p = d \<and> status p = ''waiting''}"
  from assms have "filter (\<lambda>p. department p = d \<and> status p = ''waiting'') ps \<noteq> []"
    by (auto simp: filter_empty_conv)
  from next_queue_number_some [OF this] obtain w where
    w: "w \<in> set ps" "department w = d" "status w = ''waiting''"
       "get_next_queue_number ps d = queue_number w + 1"
       "\<forall>q\<in>set ps. department q = d \<and> status q = ''waiting'' \<longrightarrow> queue_number q \<le> queue_number w"
    by blast
  have "?Q = queue_number ` {p \<in> set ps. department p = d \<and> status p = ''waiting''}"
    by auto
  then have fin: "finite ?Q" by simp
  have "Max ?Q = queue_number w"
  proof (rule Max_eqI [OF fin])
    show "queue_number w \<in> ?Q" using w by blast
    show "y \<le> queue_number w" if "y \<in> ?Q" for y
      using that w(5) by auto
  qed
  with w(4) show ?thesis by simp
qed

section \<open>Queue numbers of waiting records\<close>

lemma set_status_waiting_filter:
  "s \<noteq> ''waiting'' \<Longrightarrow>
   filter (\<lambda>p. department p = d \<and> status p = ''waiting'') (set_status k s ps) =
   filter (\<lambda>p. p_id p \<noteq> k) (filter (\<lambda>p. department p = d \<and> status p = ''waiting'') ps)"
  by (induction ps) (auto simp: set_status_def)

lemma set_status_waiting_distinct:
  assumes "s \<noteq> ''waiting''"
    and "distinct (map queue_number (filter (\<lambda>p. department p = d \<and> status p = ''waiting'') ps))"
  shows "distinct (map queue_number
           (filter (\<lambda>p. department p = d \<and> status p = ''waiting'') (set_status k s ps)))"
  unfolding set_status_waiting_filter [OF assms(1)]
  using assms(2) by (rule distinct_map_filter)

lemma handle_waiting_distinct:
  assumes "distinct (map queue_number (filter (\<lambda>p. department p = d \<and> status p = ''waiting'') (patients st)))"
  shows "distinct (map queue_number
           (filter (\<lambda>p. department p = d \<and> status p = ''waiting'') (patients (fst (handle r st)))))"
proof (cases r)
  case (Register now form)
  from register_patients [of now form st] show ?thesis
  proof
    assume "fst (register now form st) = st \<and> snd (snd (register now form st)) = 400"
    with assms show ?thesis by (simp add: Register)
  next
    let ?dep = "strip (form_get form ''department'')"
    let ?p = "\<lparr>p_id = next_rowid (map p_id (patients st)),
               p_name = strip (form_get form ''name''), department = ?dep,
               queue_number = get_next_queue_number (patients st) ?dep,
               timestamp = now, status = ''waiting''\<rparr>"
    assume "fst (register now form st) = st\<lparr>patients := patients st @ [?p]\<rparr> \<and>
      snd (snd (register now form st)) = 200 \<and>
      strip (form_get form ''name'') \<noteq> [] \<and> ?dep \<noteq> [] \<and>
      department_by_name (departments st) ?dep \<noteq> None"
    then have e: "patients (fst (handle r st)) = patients st @ [?p]"
      by (simp add: Register)
    show ?thesis
    proof (cases "?dep = d")
      case True
      have "\<forall>q\<in>set (patients st). department q = d \<and> status q = ''waiting'' \<longrightarrow>
              queue_number q \<noteq> get_next_queue_number (patients st) d"
        using next_queue_number_above [of _ "patients st" d] by fastforce
      with assms True show ?thesis
        by (auto simp: e)
    next
      case False
      with assms show ?thesis by (simp add: e)
    qed
  qed
next
  case (LeaveQueue i)
  from leave_queue_patients [of i st] assms show ?thesis
    by (auto simp: LeaveQueue set_status_waiting_distinct)
next
  case (MarkServed i)
  from mark_served_patients [of i st] assms show ?thesis
    by (auto simp: MarkServed set_status_waiting_distinct)
qed

lemma run_waiting_distinct:
  "distinct (map queue_number (filter (\<lambda>p. department p = d \<and> status p = ''waiting'') (patients st))) \<Longrightarrow>
   distinct (map queue_number
      (filter (\<lambda>p. department p = d \<and> status p = ''waiting'') (patients (run rs st))))"
proof (induction rs arbitrary: st)
  case Nil
  then show ?case by simp
next
  case (Cons r rs)
  from Cons.prems
  have "distinct (map queue_number
           (filter (\<lambda>p. department p = d \<and> status p = ''waiting'') (patients (fst (handle r st)))))"
    by (rule handle_waiting_distinct)
  then show ?case
    using Cons.IH by simp
qed

text \<open>
  Alice registers at the pharmacy and gets number 1; she leaves the queue; Carol
  registers at the pharmacy and gets number 1 as well: the number of a cancelled record
  is assigned again.
\<close>

theorem queue_number_reused:
  "map (\<lambda>p. (p_name p, department p, queue_number p, status p))
     (patients
       (run [Register 7 [''name'' \<mapsto> ''Alice'', ''department'' \<mapsto> ''Pharmacy / Medicine Pickup''],
             LeaveQueue (Some 1),
             Register 9 [''name'' \<mapsto> ''Carol'', ''department'' \<mapsto> ''Pharmacy / Medicine Pickup'']]
            (init_db \<lparr>departments = [], patients = []\<rparr>))) =
   [(''Alice'', ''Pharmacy / Medicine Pickup'', 1, ''cancelled''),
    (''Carol'', ''Pharmacy / Medicine Pickup'', 1, ''waiting'')]"
  by (simp add: init_db_empty seeded_departments handler_defs)

lemma next_queue_number_waiting_only:
  "get_next_queue_number (filter (\<lambda>p. status p = ''waiting'') ps) d = get_next_queue_number ps d"
proof -
  have "filter (\<lambda>p. department p = d \<and> status p = ''waiting'') (filter (\<lambda>p. status p = ''waiting'') ps) =
        filter (\<lambda>p. department p = d \<and> status p = ''waiting'') ps"
    by (induction ps) auto
  then show ?thesis
    by (simp only: get_next_queue_number_def)
qed

text \<open>
  Claim C2, as the code has it. A successful registration appends one record, whose
  queue number is the next queue number of its department and is strictly greater than
  the queue number of every record waiting in that department; when no record of the
  department is waiting, that number is 1. Starting from an empty patient table, the
  waiting records of one department never share a queue number. The next queue number
  is the same as in the table without its served and cancelled records, so their
  numbers are not reserved.
\<close>

theorem queue_number_fresh_among_waiting:
  "(snd (snd (register now form st)) = 200 \<longrightarrow>
      (\<exists>p. patients (fst (register now form st)) = patients st @ [p] \<and>
           queue_number p = get_next_queue_number (patients st) (department p) \<and>
           (\<forall>q\<in>set (patients st). department q = department p \<and> status q = ''waiting'' \<longrightarrow>
                queue_number q < queue_number p) \<and>
           ((\<forall>q\<in>set (patients st). department q = department p \<longrightarrow> status q \<noteq> ''waiting'') \<longrightarrow>
                queue_number p = 1))) \<and>
   (patients st0 = [] \<longrightarrow>
      distinct (map queue_number
        (filter (\<lambda>p. department p = d \<and> status p = ''waiting'') (patients (run rs st0))))) \<and>
   get_next_queue_number ps d = get_next_queue_number (filter (\<lambda>p. status p = ''waiting'') ps) d"
proof (intro conjI impI)
  let ?dep = "strip (form_get form ''department'')"
  let ?p = "\<lparr>p_id = next_rowid (map p_id (patients st)),
             p_name = strip (form_get form ''name''), department = ?dep,
             queue_number = get_next_queue_number (patients st) ?dep,
             timestamp = now, status = ''waiting''\<rparr>"
  assume "snd (snd (register now form st)) = 200"
  with register_patients [of now form st]
  have e: "patients (fst (register now form st)) = patients st @ [?p]"
    by auto
  have above: "\<forall>q\<in>set (patients st). department q = department ?p \<and> status q = ''waiting'' \<longrightarrow>
          queue_number q < queue_number ?p"
    using next_queue_number_above [of _ "patients st" ?dep] by simp
  have restart: "queue_number ?p = 1"
    if "\<forall>q\<in>set (patients st). department q = department ?p \<longrightarrow> status q \<noteq> ''waiting''"
  proof -
    from that have "filter (\<lambda>q. department q = ?dep \<and> status q = ''waiting'') (patients st) = []"
      by (auto simp: filter_empty_conv)
    then have "get_next_queue_number (patients st) ?dep = 1"
      by (rule next_queue_number_none)
    then show ?thesis by simp
  qed
  from e above restart
  show "\<exists>p. patients (fst (register now form st)) = patients st @ [p] \<and>
           queue_number p = get_next_queue_number (patients st) (department p) \<and>
           (\<forall>q\<in>set (patients st). department q = department p \<and> status q = ''waiting'' \<longrightarrow>
                queue_number q < queue_number p) \<and>
           ((\<forall>q\<in>set (patients st). department q = department p \<longrightarrow> status q \<noteq> ''waiting'') \<longrightarrow>
                queue_number p = 1)"
    by (intro exI [of _ ?p]) simp
next
  assume "patients st0 = []"
  then have "distinct (map queue_number
     (filter (\<lambda>p. department p = d \<and> status p = ''waiting'') (patients st0)))"
    by simp
  then show "distinct (map queue_number
        (filter (\<lambda>p. department p = d \<and> status p = ''waiting'') (patients (run rs st0))))"
    by (rule run_waiting_distinct)
next
  show "get_next_queue_number ps d = get_next_queue_number (filter (\<lambda>p. status p = ''waiting'') ps) d"
    by (simp only: next_queue_number_waiting_only)
qed

theorem queue_number_fresh_among_waiting_witness:
  "snd (snd (register 8 [''name'' \<mapsto> ''Bob'', ''department'' \<mapsto> ''Pharmacy / Medicine Pickup'']
     \<lparr>departments = fold add_department default_departments [],
      patients = [\<lparr>p_id = 1, p_name = ''Alice'', department = ''Pharmacy / Medicine Pickup'',
                   queue_number = 1, timestamp = 7, status = ''waiting''\<rparr>]\<rparr>)) = 200 \<and>
   (\<exists>p. patients (fst (register 8 [''name'' \<mapsto> ''Bob'', ''department'' \<mapsto> ''Pharmacy / Medicine Pickup'']
     \<lparr>departments = fold add_department default_departments [],
      patients = [\<lparr>p_id = 1, p_name = ''Alice'', department = ''Pharmacy / Medicine Pickup'',
                   queue_number = 1, timestamp = 7, status = ''waiting''\<rparr>]\<rparr>)) =
        [\<lparr>p_id = 1, p_name = ''Alice'', department = ''Pharmacy / Medicine Pickup'',
          queue_number = 1, timestamp = 7, status = ''waiting''\<rparr>, p] \<and>
        queue_number p = 2) \<and>
   snd (snd (register 9 [''name'' \<mapsto> ''Carol'', ''department'' \<mapsto> ''Pharmacy / Medicine Pickup'']
     \<lparr>departments = fold add_department default_departments [],
      patients = [\<lparr>p_id = 1, p_name = ''Alice'', department = ''Pharmacy / Medicine Pickup'',
                   queue_number = 1, timestamp = 7, status = ''cancelled''\<rparr>]\<rparr>)) = 200 \<and>
   (\<exists>p. patients (fst (register 9 [''name'' \<mapsto> ''Carol'', ''department'' \<mapsto> ''Pharmacy / Medicine Pickup'']
     \<lparr>departments = fold add_department default_departments [],
      patients = [\<lparr>p_id = 1, p_name = ''Alice'', department = ''Pharmacy / Medicine Pickup'',
                   queue_number = 1, timestamp = 7, status = ''cancelled''\<rparr>]\<rparr>)) =
        [\<lparr>p_id = 1, p_name = ''Alice'', department = ''Pharmacy / Medicine Pickup'',
          queue_number = 1, timestamp = 7, status = ''cancelled''\<rparr>, p] \<and>
        queue_number p = 1) \<and>
   distinct (map queue_number
     (filter (\<lambda>p. department p = ''Pharmacy / Medicine Pickup'' \<and> status p = ''waiting'')
       (patients
         (run [Register 7 [''name'' \<mapsto> ''Alice'', ''department'' \<mapsto> ''Pharmacy / Medicine Pickup''],
               LeaveQueue (Some 1),
               Register 9 [''name'' \<mapsto> ''Carol'', ''department'' \<mapsto> ''Pharmacy / Medicine Pickup'']]
              \<lparr>departments = fold add_department default_departments [], patients = []\<rparr>))))"
proof -
  let ?a = "\<lparr>p_id = 1, p_name = ''Alice'', department = ''Pharmacy / Medicine Pickup'',
             queue_number = 1, timestamp = 7, status = ''waiting''\<rparr>"
  let ?c = "\<lparr>p_id = 1, p_name = ''Alice'', department = ''Pharmacy / Medicine Pickup'',
             queue_number = 1, timestamp = 7, status = ''cancelled''\<rparr>"
  let ?S1 = "\<lparr>departments = fold add_department default_departments [], patients = [?a]\<rparr>"
  let ?S2 = "\<lparr>departments = fold add_department default_departments [], patients = [?c]\<rparr>"
  let ?S0 = "\<lparr>departments = fold add_department default_departments [], patients = []\<rparr>"
  let ?P = "''Pharmacy / Medicine Pickup''"
  let ?f = "[''name'' \<mapsto> ''Bob'', ''department'' \<mapsto> ''Pharmacy / Medicine Pickup'']"
  let ?g = "[''name'' \<mapsto> ''Carol'', ''department'' \<mapsto> ''Pharmacy / Medicine Pickup'']"
  let ?rs = "[Register 7 [''name'' \<mapsto> ''Alice'', ''department'' \<mapsto> ''Pharmacy / Medicine Pickup''],
               LeaveQueue (Some 1),
               Register 9 [''name'' \<mapsto> ''Carol'', ''department'' \<mapsto> ''Pharmacy / Medicine Pickup'']]"
  note t = queue_number_fresh_among_waiting [of 8 ?f ?S1 ?S0 ?P ?rs]
  note u = queue_number_fresh_among_waiting [of 9 ?g ?S2 ?S0 ?P ?rs]
  have code: "snd (snd (register 8 ?f ?S1)) = 200"
    by (simp add: seeded_departments handler_defs)
  with t obtain p where
    p: "patients (fst (register 8 ?f ?S1)) = patients ?S1 @ [p]"
       "queue_number p = get_next_queue_number (patients ?S1) (department p)"
    by blast
  have "map queue_number (patients (fst (register 8 ?f ?S1))) = [1, 2]"
    by (simp add: seeded_departments handler_defs)
  with p(1) have "queue_number p = 2" by simp
  with p(1) have ex: "\<exists>p. patients (fst (register 8 ?f ?S1)) = [?a, p] \<and> queue_number p = 2"
    by auto
  have code2: "snd (snd (register 9 ?g ?S2)) = 200"
    by (simp add: seeded_departments handler_defs)
  with u obtain q where
    q: "patients (fst (register 9 ?g ?S2)) = patients ?S2 @ [q]"
       "(\<forall>x\<in>set (patients ?S2). department x = department q \<longrightarrow> status x \<noteq> ''waiting'') \<longrightarrow>
          queue_number q = 1"
    by blast
  have "\<forall>x\<in>set (patients ?S2). department x = department q \<longrightarrow> status x \<noteq> ''waiting''"
    by simp
  with q(2) have "queue_number q = 1" by blast
  with q(1) have ex2: "\<exists>p. patients (fst (register 9 ?g ?S2)) = [?c, p] \<and> queue_number p = 1"
    by auto
  have "patients ?S0 = []" by simp
  with t have d: "distinct (map queue_number
     (filter (\<lambda>p. department p = ?P \<and> status p = ''waiting'') (patients (run ?rs ?S0))))"
    by blast
  from code ex code2 ex2 d show ?thesis by blast
qed

section \<open>Queue numbers of an intact department\<close>

lemma set_status_department_length:
  "length (filter (\<lambda>p. department p = d) (set_status k s ps)) =
   length (filter (\<lambda>p. department p = d) ps)"
  by (induction ps) (auto simp: set_status_def)

lemma set_status_department_filter:
  "\<forall>p\<in>set ps. department p = d \<longrightarrow> p_id p \<noteq> k \<Longrightarrow>
   filter (\<lambda>p. department p = d) (set_status k s ps) = filter (\<lambda>p. department p = d) ps"
  by (induction ps) (auto simp: set_status_def)

lemma set_status_all_waiting:
  assumes "s \<noteq> ''waiting''"
    and "\<forall>p\<in>set (set_status k s ps). department p = d \<longrightarrow> status p = ''waiting''"
  shows "\<forall>p\<in>set ps. department p = d \<longrightarrow> status p = ''waiting'' \<and> p_id p \<noteq> k"
proof (intro ballI impI)
  fix p assume p: "p \<in> set ps" "department p = d"
  let ?p' = "if p_id p = k then p\<lparr>status := s\<rparr> else p"
  from p(1) have "?p' \<in> set (set_status k s ps)"
    by (simp add: set_status_def)
  moreover have "department ?p' = d"
    using p(2) by simp
  ultimately have "status ?p' = ''waiting''"
    using assms(2) by blast
  with assms(1) show "status p = ''waiting'' \<and> p_id p \<noteq> k"
    by (auto split: if_splits)
qed

lemma next_queue_number_intact:
  assumes w: "\<forall>p\<in>set ps. department p = d \<longrightarrow> status p = ''waiting''"
    and q: "map queue_number (filter (\<lambda>p. department p = d) ps) =
            [1..int (length (filter (\<lambda>p. department p = d) ps))]"
  shows "get_next_queue_number ps d = int (length (filter (\<lambda>p. department p = d) ps)) + 1"
proof -
  let ?D = "filter (\<lambda>p. department p = d) ps"
  let ?n = "int (length ?D)"
  from w have eq: "filter (\<lambda>p. department p = d \<and> status p = ''waiting'') ps = ?D"
    by (auto intro: filter_cong)
  show ?thesis
  proof (cases "?D = []")
    case True
    with eq show ?thesis by (simp add: next_queue_number_none)
  next
    case False
    with eq have "filter (\<lambda>p. department p = d \<and> status p = ''waiting'') ps \<noteq> []"
      by simp
    from next_queue_number_some [OF this] obtain x where
      x: "x \<in> set ps" "department x = d"
         "get_next_queue_number ps d = queue_number x + 1"
         "\<forall>y\<in>set ps. department y = d \<and> status y = ''waiting'' \<longrightarrow> queue_number y \<le> queue_number x"
      by blast
    have s: "queue_number ` set ?D = {1..?n}"
      using arg_cong [OF q, of set] by simp
    from x(1,2) have "queue_number x \<in> queue_number ` set ?D" by simp
    with s have up: "queue_number x \<le> ?n" by simp
    from False have "1 \<le> ?n" by (cases ?D) simp_all
    with s have "?n \<in> queue_number ` set ?D" by simp
    then obtain y where y: "y \<in> set ps" "department y = d" "queue_number y = ?n"
      by auto
    with w x(4) have "?n \<le> queue_number x" by fastforce
    with up x(3) show ?thesis by simp
  qed
qed

lemma handle_intact:
  assumes inv: "(\<forall>p\<in>set (patients st). department p = d \<longrightarrow> status p = ''waiting'') \<longrightarrow>
      map queue_number (filter (\<lambda>p. department p = d) (patients st)) =
        [1..int (length (filter (\<lambda>p. department p = d) (patients st)))]"
    and after: "\<forall>p\<in>set (patients (fst (handle r st))). department p = d \<longrightarrow> status p = ''waiting''"
  shows "map queue_number (filter (\<lambda>p. department p = d) (patients (fst (handle r st)))) =
        [1..int (length (filter (\<lambda>p. department p = d) (patients (fst (handle r st)))))]"
proof -
  have changed: ?thesis
    if e: "patients (fst (handle r st)) = set_status k s (patients st)" and s: "s \<noteq> ''waiting''"
    for k s
  proof -
    from after e have "\<forall>p\<in>set (set_status k s (patients st)). department p = d \<longrightarrow> status p = ''waiting''"
      by simp
    from set_status_all_waiting [OF s this]
    have b: "\<forall>p\<in>set (patients st). department p = d \<longrightarrow> status p = ''waiting'' \<and> p_id p \<noteq> k" .
    then have "filter (\<lambda>p. department p = d) (set_status k s (patients st)) =
        filter (\<lambda>p. department p = d) (patients st)"
      by (simp add: set_status_department_filter)
    with inv b e show ?thesis by simp
  qed
  have same: ?thesis if e: "patients (fst (handle r st)) = patients st"
    using inv after e by simp
  show ?thesis
  proof (cases r)
    case (Register now form)
    let ?dep = "strip (form_get form ''department'')"
    let ?p = "\<lparr>p_id = next_rowid (map p_id (patients st)),
               p_name = strip (form_get form ''name''), department = ?dep,
               queue_number = get_next_queue_number (patients st) ?dep,
               timestamp = now, status = ''waiting''\<rparr>"
    from register_patients [of now form st] show ?thesis
    proof
      assume "fst (register now form st) = st \<and> snd (snd (register now form st)) = 400"
      then show ?thesis by (intro same) (simp add: Register)
    next
      assume "fst (register now form st) = st\<lparr>patients := patients st @ [?p]\<rparr> \<and>
        snd (snd (register now form st)) = 200 \<and>
        strip (form_get form ''name'') \<noteq> [] \<and> ?dep \<noteq> [] \<and>
        department_by_name (departments st) ?dep \<noteq> None"
      then have e: "patients (fst (handle r st)) = patients st @ [?p]"
        by (simp add: Register)
      with after have b: "\<forall>p\<in>set (patients st). department p = d \<longrightarrow> status p = ''waiting''"
        by simp
      with inv have q: "map queue_number (filter (\<lambda>p. department p = d) (patients st)) =
        [1..int (length (filter (\<lambda>p. department p = d) (patients st)))]"
        by simp
      show ?thesis
      proof (cases "?dep = d")
        case True
        from next_queue_number_intact [OF b q]
        have "get_next_queue_number (patients st) d =
            int (length (filter (\<lambda>p. department p = d) (patients st))) + 1" .
        with q True show ?thesis
          by (simp add: e upto_rec2)
      next
        case False
        with q show ?thesis by (simp add: e)
      qed
    qed
  next
    case (LeaveQueue i)
    from leave_queue_patients [of i st] show ?thesis
    proof (elim disjE exE)
      assume "patients (fst (leave_queue i st)) = patients st"
      then show ?thesis by (intro same) (simp add: LeaveQueue)
    next
      fix k assume "patients (fst (leave_queue i st)) = set_status k ''cancelled'' (patients st)"
      then show ?thesis by (intro changed [of k "''cancelled''"]) (simp_all add: LeaveQueue)
    qed
  next
    case (MarkServed i)
    from mark_served_patients [of i st] show ?thesis
    proof (elim disjE exE)
      assume "patients (fst (mark_served i st)) = patients st"
      then show ?thesis by (intro same) (simp add: MarkServed)
    next
      fix k assume "patients (fst (mark_served i st)) = set_status k ''served'' (patients st)"
      then show ?thesis by (intro changed [of k "''served''"]) (simp_all add: MarkServed)
    qed
  qed
qed


lemma run_intact:
  "(\<forall>p\<in>set (patients st). department p = d \<longrightarrow> status p = ''waiting'') \<longrightarrow>
      map queue_number (filter (\<lambda>p. department p = d) (patients st)) =
        [1..int (length (filter (\<lambda>p. department p = d) (patients st)))] \<Longrightarrow>
   \<forall>p\<in>set (patients (run rs st)). department p = d \<longrightarrow> status p = ''waiting'' \<Longrightarrow>
   map queue_number (filter (\<lambda>p. department p = d) (patients (run rs st))) =
        [1..int (length (filter (\<lambda>p. department p = d) (patients (run rs st))))]"
proof (induction rs arbitrary: st)
  case Nil
  then show ?case by simp
next
  case (Cons r rs)
  have "(\<forall>p\<in>set (patients (fst (handle r st))). department p = d \<longrightarrow> status p = ''waiting'') \<longrightarrow>
      map queue_number (filter (\<lambda>p. department p = d) (patients (fst (handle r st)))) =
        [1..int (length (filter (\<lambda>p. department p = d) (patients (fst (handle r st)))))]"
    using handle_intact [OF Cons.prems(1)] by blast
  from Cons.IH [OF this] Cons.prems(2) show ?case by simp
qed

lemma handle_department_length:
  "length (filter (\<lambda>p. department p = d) (patients (fst (handle r st)))) =
   length (filter (\<lambda>p. department p = d) (patients st)) + registered d [r] st"
proof (cases r)
  case (Register now form)
  from register_patients [of now form st] show ?thesis
    by (auto simp: Register)
next
  case (LeaveQueue i)
  from leave_queue_patients [of i st] show ?thesis
    by (auto simp: LeaveQueue set_status_department_length)
next
  case (MarkServed i)
  from mark_served_patients [of i st] show ?thesis
    by (auto simp: MarkServed set_status_department_length)
qed

lemma registered_Cons:
  "registered d (r # rs) st = registered d [r] st + registered d rs (fst (handle r st))"
  by simp

lemma run_department_length:
  "length (filter (\<lambda>p. department p = d) (patients (run rs st))) =
   length (filter (\<lambda>p. department p = d) (patients st)) + registered d rs st"
proof (induction rs arbitrary: st)
  case Nil
  then show ?case by simp
next
  case (Cons r rs)
  have "length (filter (\<lambda>p. department p = d) (patients (run (r # rs) st))) =
      length (filter (\<lambda>p. department p = d) (patients (fst (handle r st)))) +
      registered d rs (fst (handle r st))"
    using Cons.IH [of "fst (handle r st)"] by simp
  also have "\<dots> = length (filter (\<lambda>p. department p = d) (patients st)) +
      registered d [r] st + registered d rs (fst (handle r st))"
    by (simp only: handle_department_length)
  finally show ?case
    by (simp only: registered_Cons [of d r rs st] add.assoc)
qed

lemma run_registrations_waiting:
  "\<forall>r\<in>set rs. \<exists>now form. r = Register now form \<Longrightarrow>
   \<forall>p\<in>set (patients st). status p = ''waiting'' \<Longrightarrow>
   \<forall>p\<in>set (patients (run rs st)). status p = ''waiting''"
proof (induction rs arbitrary: st)
  case Nil
  then show ?case by simp
next
  case (Cons r rs)
  from Cons.prems(1) obtain now form where r: "r = Register now form" by auto
  have "\<forall>p\<in>set (patients (fst (handle r st))). status p = ''waiting''"
    using register_patients [of now form st] Cons.prems(2) by (auto simp: r)
  moreover from Cons.prems(1) have "\<forall>r\<in>set rs. \<exists>now form. r = Register now form"
    by simp
  ultimately show ?case
    using Cons.IH by simp
qed

text \<open>
  One successful registration at the pharmacy, no cancellation, and the record is marked
  as served: the next queue number of the pharmacy is 1 again, not 2.
\<close>

theorem served_record_lowers_next_number:
  "registered ''Pharmacy / Medicine Pickup''
     [Register 7 [''name'' \<mapsto> ''Alice'', ''department'' \<mapsto> ''Pharmacy / Medicine Pickup''],
      MarkServed (Some 1)]
     (init_db \<lparr>departments = [], patients = []\<rparr>) = 1 \<and>
   get_next_queue_number
     (patients
       (run [Register 7 [''name'' \<mapsto> ''Alice'', ''department'' \<mapsto> ''Pharmacy / Medicine Pickup''],
             MarkServed (Some 1)]
            (init_db \<lparr>departments = [], patients = []\<rparr>)))
     ''Pharmacy / Medicine Pickup'' = 1"
  by (simp add: init_db_empty seeded_departments handler_defs)

text \<open>
  Claim C3, as the code has it. The next queue number of a department is one more than
  the greatest queue number among its waiting records, and 1 when it has none. Starting
  from an empty patient table, after any history of requests that leaves every record
  of the department waiting (no cancellation and no served mark took effect on one),
  it is the number of successful registrations for the department plus one; so it is
  after a history of registrations only.
\<close>

theorem next_queue_number_spec:
  "get_next_queue_number ps d =
     (if \<exists>p\<in>set ps. department p = d \<and> status p = ''waiting''
      then Max {queue_number p | p. p \<in> set ps \<and> department p = d \<and> status p = ''waiting''} + 1
      else 1) \<and>
   (patients st0 = [] \<and>
    (\<forall>p\<in>set (patients (run rs st0)). department p = d \<longrightarrow> status p = ''waiting'') \<longrightarrow>
      get_next_queue_number (patients (run rs st0)) d = int (registered d rs st0) + 1) \<and>
   (patients st0 = [] \<and> (\<forall>r\<in>set rs. \<exists>now form. r = Register now form) \<longrightarrow>
      get_next_queue_number (patients (run rs st0)) d = int (registered d rs st0) + 1)"
proof -
  have general: "get_next_queue_number ps d =
     (if \<exists>p\<in>set ps. department p = d \<and> status p = ''waiting''
      then Max {queue_number p | p. p \<in> set ps \<and> department p = d \<and> status p = ''waiting''} + 1
      else 1)"
  proof (cases "\<exists>p\<in>set ps. department p = d \<and> status p = ''waiting''")
    case True
    then show ?thesis
      using next_queue_number_Max [of ps d] by simp
  next
    case False
    then have "filter (\<lambda>p. department p = d \<and> status p = ''waiting'') ps = []"
      by (auto simp: filter_empty_conv)
    then have "get_next_queue_number ps d = 1"
      by (rule next_queue_number_none)
    with False show ?thesis
      by (simp only: if_False)
  qed
  have intact: "get_next_queue_number (patients (run rs st0)) d = int (registered d rs st0) + 1"
    if e: "patients st0 = []"
      and w: "\<forall>p\<in>set (patients (run rs st0)). department p = d \<longrightarrow> status p = ''waiting''"
  proof -
    from e have "(\<forall>p\<in>set (patients st0). department p = d \<longrightarrow> status p = ''waiting'') \<longrightarrow>
      map queue_number (filter (\<lambda>p. department p = d) (patients st0)) =
        [1..int (length (filter (\<lambda>p. department p = d) (patients st0)))]"
      by simp
    from run_intact [OF this w]
    have "get_next_queue_number (patients (run rs st0)) d =
        int (length (filter (\<lambda>p. department p = d) (patients (run rs st0)))) + 1"
      by (rule next_queue_number_intact [OF w])
    also have "length (filter (\<lambda>p. department p = d) (patients (run rs st0))) = registered d rs st0"
      using e by (simp add: run_department_length)
    finally show ?thesis .
  qed
  have plain: "get_next_queue_number (patients (run rs st0)) d = int (registered d rs st0) + 1"
    if e: "patients st0 = []" and r: "\<forall>r\<in>set rs. \<exists>now form. r = Register now form"
  proof -
    from e have "\<forall>p\<in>set (patients st0). status p = ''waiting''" by simp
    from run_registrations_waiting [OF r this]
    have "\<forall>p\<in>set (patients (run rs st0)). department p = d \<longrightarrow> status p = ''waiting''"
      by simp
    with e show ?thesis by (rule intact)
  qed
  from general intact plain show ?thesis by blast
qed


lemma mixed_history:
  "patients
     (run [Register 7 [''name'' \<mapsto> ''Alice'', ''department'' \<mapsto> ''Pharmacy / Medicine Pickup''],
           Register 8 [''name'' \<mapsto> ''Bob'', ''department'' \<mapsto> ''Pharmacy / Medicine Pickup''],
           Register 9 [''name'' \<mapsto> ''Dan'', ''department'' \<mapsto> ''Cardiology''],
           Register 10 [''name'' \<mapsto> ''Eve'', ''department'' \<mapsto> ''Doctor Consultation''],
           LeaveQueue (Some 3),
           MarkServed (Some 9)]
          \<lparr>departments = fold add_department default_departments [], patients = []\<rparr>) =
   [\<lparr>p_id = 1, p_name = ''Alice'', department = ''Pharmacy / Medicine Pickup'',
     queue_number = 1, timestamp = 7, status = ''waiting''\<rparr>,
    \<lparr>p_id = 2, p_name = ''Bob'', department = ''Pharmacy / Medicine Pickup'',
     queue_number = 2, timestamp = 8, status = ''waiting''\<rparr>,
    \<lparr>p_id = 3, p_name = ''Eve'', department = ''Doctor Consultation'',
     queue_number = 1, timestamp = 10, status = ''cancelled''\<rparr>]"
  by (simp add: seeded_departments handler_defs)

lemma mixed_history_registered:
  "registered ''Pharmacy / Medicine Pickup''
     [Register 7 [''name'' \<mapsto> ''Alice'', ''department'' \<mapsto> ''Pharmacy / Medicine Pickup''],
      Register 8 [''name'' \<mapsto> ''Bob'', ''department'' \<mapsto> ''Pharmacy / Medicine Pickup''],
      Register 9 [''name'' \<mapsto> ''Dan'', ''department'' \<mapsto> ''Cardiology''],
      Register 10 [''name'' \<mapsto> ''Eve'', ''department'' \<mapsto> ''Doctor Consultation''],
      LeaveQueue (Some 3),
      MarkServed (Some 9)]
     \<lparr>departments = fold add_department default_departments [], patients = []\<rparr> = 2"
  by (simp add: seeded_departments handler_defs)

theorem next_queue_number_spec_witness:
  "registered ''Pharmacy / Medicine Pickup''
     [Register 7 [''name'' \<mapsto> ''Alice'', ''department'' \<mapsto> ''Pharmacy / Medicine Pickup''],
      Register 8 [''name'' \<mapsto> ''Bob'', ''department'' \<mapsto> ''Pharmacy / Medicine Pickup''],
      Register 9 [''name'' \<mapsto> ''Dan'', ''department'' \<mapsto> ''Cardiology''],
      Register 10 [''name'' \<mapsto> ''Eve'', ''department'' \<mapsto> ''Doctor Consultation''],
      LeaveQueue (Some 3),
      MarkServed (Some 9)]
     \<lparr>departments = fold add_department default_departments [], patients = []\<rparr> = 2 \<and>
   get_next_queue_number
     (patients
       (run [Register 7 [''name'' \<mapsto> ''Alice'', ''department'' \<mapsto> ''Pharmacy / Medicine Pickup''],
             Register 8 [''name'' \<mapsto> ''Bob'', ''department'' \<mapsto> ''Pharmacy / Medicine Pickup''],
             Register 9 [''name'' \<mapsto> ''Dan'', ''department'' \<mapsto> ''Cardiology''],
             Register 10 [''name'' \<mapsto> ''Eve'', ''department'' \<mapsto> ''Doctor Consultation''],
             LeaveQueue (Some 3),
             MarkServed (Some 9)]
            \<lparr>departments = fold add_department default_departments [], patients = []\<rparr>))
     ''Pharmacy / Medicine Pickup'' = 3 \<and>
   get_next_queue_number
     (patients
       (run [Register 7 [''name'' \<mapsto> ''Alice'', ''department'' \<mapsto> ''Pharmacy / Medicine Pickup''],
             Register 8 [''name'' \<mapsto> ''Bob'', ''department'' \<mapsto> ''Pharmacy / Medicine Pickup'']]
            \<lparr>departments = fold add_department default_departments [], patients = []\<rparr>))
     ''Pharmacy / Medicine Pickup'' =
   int (registered ''Pharmacy / Medicine Pickup''
     [Register 7 [''name'' \<mapsto> ''Alice'', ''department'' \<mapsto> ''Pharmacy / Medicine Pickup''],
      Register 8 [''name'' \<mapsto> ''Bob'', ''department'' \<mapsto> ''Pharmacy / Medicine Pickup'']]
     \<lparr>departments = fold add_department default_departments [], patients = []\<rparr>) + 1"
proof -
  let ?S0 = "\<lparr>departments = fold add_department default_departments [], patients = []\<rparr>"
  let ?P = "''Pharmacy / Medicine Pickup''"
  let ?rs = "[Register 7 [''name'' \<mapsto> ''Alice'', ''department'' \<mapsto> ''Pharmacy / Medicine Pickup''],
      Register 8 [''name'' \<mapsto> ''Bob'', ''department'' \<mapsto> ''Pharmacy / Medicine Pickup''],
      Register 9 [''name'' \<mapsto> ''Dan'', ''department'' \<mapsto> ''Cardiology''],
      Register 10 [''name'' \<mapsto> ''Eve'', ''department'' \<mapsto> ''Doctor Consultation''],
      LeaveQueue (Some 3),
      MarkServed (Some 9)]"
  let ?qs = "[Register 7 [''name'' \<mapsto> ''Alice'', ''department'' \<mapsto> ''Pharmacy / Medicine Pickup''],
      Register 8 [''name'' \<mapsto> ''Bob'', ''department'' \<mapsto> ''Pharmacy / Medicine Pickup'']]"
  have e: "patients ?S0 = []" by simp
  have w: "\<forall>p\<in>set (patients (run ?rs ?S0)). department p = ?P \<longrightarrow> status p = ''waiting''"
    by (simp only: mixed_history) simp
  from e w have "get_next_queue_number (patients (run ?rs ?S0)) ?P = int (registered ?P ?rs ?S0) + 1"
    using next_queue_number_spec [of "patients ?S0" ?P ?S0 ?rs] by blast
  then have a: "get_next_queue_number (patients (run ?rs ?S0)) ?P = 3"
    by (simp only: mixed_history_registered)
  have r: "\<forall>r\<in>set ?qs. \<exists>now form. r = Register now form"
    by simp
  from e r have b: "get_next_queue_number (patients (run ?qs ?S0)) ?P = int (registered ?P ?qs ?S0) + 1"
    using next_queue_number_spec [of "patients ?S0" ?P ?S0 ?qs] by blast
  from a b mixed_history_registered show ?thesis by blast
qed

end
